theory Spec2Isabelle
  imports Complex_Main
begin

section \<open>Entity and schemas (models/todo.py)\<close>

text \<open>
  A timestamp is what \<^verbatim>\<open>datetime.utcnow()\<close> returns: a point of the wall clock with
  microsecond resolution, here the number of microseconds since the epoch. The clock is
  not part of the program: every reading is a parameter of the operation that takes it.
\<close>

type_synonym datetime = int

text \<open>
  The mapped class \<^verbatim>\<open>Todo\<close>, one row of the table \<^verbatim>\<open>todos\<close>. The column
  \<^verbatim>\<open>title = Column(String, index=True)\<close> carries no \<^verbatim>\<open>nullable=False\<close>, so it
  accepts NULL like \<^verbatim>\<open>description\<close>; the two timestamps are declared
  \<^verbatim>\<open>nullable=False\<close>. The fields are prefixed \<open>t_\<close> because \<open>id\<close> is a constant of
  HOL and the response schema has fields of the same names.
\<close>

record Todo =
  t_id :: int
  t_title :: "string option"
  t_description :: "string option"
  t_created_at :: datetime
  t_updated_at :: datetime

text \<open>\<^verbatim>\<open>TodoCreate\<close>: \<^verbatim>\<open>title: str\<close>, \<^verbatim>\<open>description: str | None = None\<close>.\<close>

record TodoCreate =
  c_title :: string
  c_description :: "string option"

text \<open>
  \<^verbatim>\<open>TodoUpdate\<close>: both fields are \<^verbatim>\<open>str | None = None\<close>. The model remembers which
  fields the caller set (\<^verbatim>\<open>dict(exclude_unset=True)\<close> reads that), so a field has three
  states: not set, set to \<^verbatim>\<open>None\<close>, set to a string.
\<close>

datatype 'a field = Unset | Provided 'a

record TodoUpdate =
  u_title :: "string option field"
  u_description :: "string option field"

text \<open>\<^verbatim>\<open>TodoResponse\<close>: \<^verbatim>\<open>title: str\<close> is required and not nullable.\<close>

record TodoResponse =
  r_id :: int
  r_title :: string
  r_description :: "string option"
  r_created_at :: datetime
  r_updated_at :: datetime

text \<open>
  What a call can raise: the validation error of \<^verbatim>\<open>TodoResponse.from_orm\<close>, and the
  \<^verbatim>\<open>HTTPException(status_code, detail)\<close> of the routes.
\<close>

datatype error = ValidationError | HTTPException int string

text \<open>
  \<^verbatim>\<open>TodoResponse.from_orm(todo)\<close> reads the five attributes and validates them against
  the schema: a row whose title is NULL fails \<^verbatim>\<open>title: str\<close>.
\<close>

definition from_orm :: "Todo \<Rightarrow> error + TodoResponse" where
  "from_orm todo =
     (case t_title todo of
        None \<Rightarrow> Inl ValidationError
      | Some title \<Rightarrow>
          Inr \<lparr>r_id = t_id todo, r_title = title, r_description = t_description todo,
               r_created_at = t_created_at todo, r_updated_at = t_updated_at todo\<rparr>)"

text \<open>The list comprehension over \<^verbatim>\<open>from_orm\<close>: the first row that fails raises.\<close>

fun from_orm_all :: "Todo list \<Rightarrow> error + TodoResponse list" where
  "from_orm_all [] = Inr []"
| "from_orm_all (todo # todos) =
     (case from_orm todo of
        Inl e \<Rightarrow> Inl e
      | Inr v \<Rightarrow> (case from_orm_all todos of Inl e \<Rightarrow> Inl e | Inr vs \<Rightarrow> Inr (v # vs)))"

section \<open>The session (the table behind \<^verbatim>\<open>next(get_db())\<close>)\<close>

text \<open>
  Modelled from the spec: \<^verbatim>\<open>helpers.database\<close> (\<^verbatim>\<open>get_db\<close> and the engine) is
  not among the sources. The spec gives one logical table of Todos behind it, whose ids
  are assigned by the store on creation and unique; no operation spans several requests.
  The state of the store is therefore the table \<^verbatim>\<open>todos\<close>, a list of rows in the
  order of insertion, and the id the store assigns to a new row is a parameter of the
  operation that inserts it. The statements a session sends are modelled by what they do
  to the table: a query with \<^verbatim>\<open>filter(Todo.id == todo_id).first()\<close> is the first
  row of that id, a flushed change of a loaded row is an UPDATE of the rows of its
  primary key, and \<^verbatim>\<open>db.delete\<close> is a DELETE of the rows of its primary key. Faults
  of the store itself (a lost connection, a rejected statement) are not modelled.
\<close>

type_synonym session = "Todo list"

definition query_first :: "int \<Rightarrow> session \<Rightarrow> Todo option" where
  "query_first todo_id db = find (\<lambda>row. t_id row = todo_id) db"

definition query_all :: "session \<Rightarrow> Todo list" where
  "query_all db = db"

definition db_add :: "Todo \<Rightarrow> session \<Rightarrow> session" where
  "db_add db_todo db = db @ [db_todo]"

definition db_delete :: "Todo \<Rightarrow> session \<Rightarrow> session" where
  "db_delete db_todo db = filter (\<lambda>row. t_id row \<noteq> t_id db_todo) db"

section \<open>Persistence operations (controllers/todo.py)\<close>

text \<open>
  \<^verbatim>\<open>create_todo\<close> builds the row from the input and from two readings of the clock,
  \<open>now1\<close> for \<^verbatim>\<open>created_at\<close> and \<open>now2\<close> for \<^verbatim>\<open>updated_at\<close> (the source calls
  \<^verbatim>\<open>datetime.utcnow()\<close> once for each), adds and commits it, and returns the view of
  the refreshed row. The primary key is assigned by the store at the commit:
  \<open>new_id\<close> is that value.
\<close>

definition create_todo ::
  "int \<Rightarrow> datetime \<Rightarrow> datetime \<Rightarrow> TodoCreate \<Rightarrow> session \<Rightarrow> session \<times> (error + TodoResponse)" where
  "create_todo new_id now1 now2 todo db =
     (let db_todo = \<lparr>t_id = new_id, t_title = Some (c_title todo),
                     t_description = c_description todo,
                     t_created_at = now1, t_updated_at = now2\<rparr>;
          db' = db_add db_todo db
      in (db', from_orm db_todo))"

definition get_all_todos :: "session \<Rightarrow> session \<times> (error + TodoResponse list)" where
  "get_all_todos db = (db, from_orm_all (query_all db))"

definition get_todo_by_id :: "int \<Rightarrow> session \<Rightarrow> session \<times> (error + TodoResponse option)" where
  "get_todo_by_id todo_id db =
     (case query_first todo_id db of
        Some todo \<Rightarrow> (db, map_sum id Some (from_orm todo))
      | None \<Rightarrow> (db, Inr None))"

text \<open>
  \<^verbatim>\<open>update_data\<close>: the dictionary \<^verbatim>\<open>todo.dict(exclude_unset=True)\<close>, holding the
  fields the caller set (in the order of the schema), and then the key
  \<^verbatim>\<open>updated_at\<close>.
\<close>

datatype assignment =
  Title "string option" | Description "string option" | Updated_at datetime

definition dict_exclude_unset :: "TodoUpdate \<Rightarrow> assignment list" where
  "dict_exclude_unset todo =
     (case u_title todo of Unset \<Rightarrow> [] | Provided v \<Rightarrow> [Title v]) @
     (case u_description todo of Unset \<Rightarrow> [] | Provided v \<Rightarrow> [Description v])"

definition update_data :: "datetime \<Rightarrow> TodoUpdate \<Rightarrow> assignment list" where
  "update_data now todo = dict_exclude_unset todo @ [Updated_at now]"

fun setattr :: "Todo \<Rightarrow> assignment \<Rightarrow> Todo" where
  "setattr row (Title v) = row\<lparr>t_title := v\<rparr>"
| "setattr row (Description v) = row\<lparr>t_description := v\<rparr>"
| "setattr row (Updated_at v) = row\<lparr>t_updated_at := v\<rparr>"

text \<open>
  The flush of the changed object at \<^verbatim>\<open>db.commit()\<close>. The mapper compares every
  attribute of the object with the value it was loaded with and puts into the UPDATE
  only the columns whose value changed; when no column changed it sends no statement.
  An UPDATE that does not assign \<^verbatim>\<open>updated_at\<close> gets the default of the column,
  \<^verbatim>\<open>onupdate=datetime.utcnow\<close>: a further reading of the clock, taken at the flush
  (\<open>flush_now\<close>).
\<close>

definition net_changes :: "Todo \<Rightarrow> Todo \<Rightarrow> assignment list" where
  "net_changes loaded db_todo =
     (if t_title db_todo \<noteq> t_title loaded then [Title (t_title db_todo)] else []) @
     (if t_description db_todo \<noteq> t_description loaded
      then [Description (t_description db_todo)] else []) @
     (if t_updated_at db_todo \<noteq> t_updated_at loaded
      then [Updated_at (t_updated_at db_todo)] else [])"

definition flush_update :: "datetime \<Rightarrow> Todo \<Rightarrow> Todo \<Rightarrow> assignment list" where
  "flush_update flush_now loaded db_todo =
     (let params = net_changes loaded db_todo
      in if params = [] then []
         else if t_updated_at db_todo = t_updated_at loaded
              then params @ [Updated_at flush_now]
              else params)"

text \<open>The UPDATE itself: the assigned columns of the rows of the key.\<close>

definition db_commit_update :: "int \<Rightarrow> assignment list \<Rightarrow> session \<Rightarrow> session" where
  "db_commit_update key asg db =
     map (\<lambda>row. if t_id row = key then foldl setattr row asg else row) db"

text \<open>
  \<^verbatim>\<open>update_todo\<close> reads the clock once (\<open>now\<close>) for the key \<^verbatim>\<open>updated_at\<close> of
  \<^verbatim>\<open>update_data\<close>; \<open>flush_now\<close> is the reading at the commit. \<^verbatim>\<open>db.refresh\<close>
  loads the row again: the loaded row with the columns the UPDATE assigned.
\<close>

definition update_todo ::
  "datetime \<Rightarrow> datetime \<Rightarrow> int \<Rightarrow> TodoUpdate \<Rightarrow> session
     \<Rightarrow> session \<times> (error + TodoResponse option)" where
  "update_todo now flush_now todo_id todo db =
     (case query_first todo_id db of
        None \<Rightarrow> (db, Inr None)
      | Some loaded \<Rightarrow>
          (let db_todo = foldl setattr loaded (update_data now todo);
               stmt = flush_update flush_now loaded db_todo;
               db' = db_commit_update (t_id loaded) stmt db;
               db_todo' = foldl setattr loaded stmt
           in (db', map_sum id Some (from_orm db_todo'))))"

definition delete_todo :: "int \<Rightarrow> session \<Rightarrow> session \<times> bool" where
  "delete_todo todo_id db =
     (case query_first todo_id db of
        None \<Rightarrow> (db, False)
      | Some db_todo \<Rightarrow> (db_delete db_todo db, True))"

section \<open>Request handlers (routes/todo.py)\<close>

definition not_found :: error where
  "not_found = HTTPException 404 ''Todo not found''"

definition create_todo_route ::
  "int \<Rightarrow> datetime \<Rightarrow> datetime \<Rightarrow> TodoCreate \<Rightarrow> session \<Rightarrow> session \<times> (error + TodoResponse)" where
  "create_todo_route new_id now1 now2 todo db = create_todo new_id now1 now2 todo db"

definition get_all_todos_route :: "session \<Rightarrow> session \<times> (error + TodoResponse list)" where
  "get_all_todos_route db = get_all_todos db"

definition get_todo_route :: "int \<Rightarrow> session \<Rightarrow> session \<times> (error + TodoResponse)" where
  "get_todo_route todo_id db =
     (case get_todo_by_id todo_id db of
        (db', Inl e) \<Rightarrow> (db', Inl e)
      | (db', Inr None) \<Rightarrow> (db', Inl not_found)
      | (db', Inr (Some todo)) \<Rightarrow> (db', Inr todo))"

definition update_todo_route ::
  "datetime \<Rightarrow> datetime \<Rightarrow> int \<Rightarrow> TodoUpdate \<Rightarrow> session
     \<Rightarrow> session \<times> (error + TodoResponse)" where
  "update_todo_route now flush_now todo_id todo db =
     (case update_todo now flush_now todo_id todo db of
        (db', Inl e) \<Rightarrow> (db', Inl e)
      | (db', Inr None) \<Rightarrow> (db', Inl not_found)
      | (db', Inr (Some updated_todo)) \<Rightarrow> (db', Inr updated_todo))"

definition delete_todo_route :: "int \<Rightarrow> session \<Rightarrow> session \<times> (error + string)" where
  "delete_todo_route todo_id db =
     (case delete_todo todo_id db of
        (db', False) \<Rightarrow> (db', Inl not_found)
      | (db', True) \<Rightarrow> (db', Inr ''Todo deleted successfully''))"

section \<open>Router (main.py, routes/todo.py)\<close>

text \<open>
  A request to the resource, by the route it is bound to. What the environment supplies
  while the request is handled travels with it: the key the store assigns to a new row
  and the readings of the clock at the moments at which the handler can take one, in
  that order (for an update: at the call in \<^verbatim>\<open>update_todo\<close>, then at the flush).
\<close>

datatype request =
    Post int datetime datetime TodoCreate
  | Get_all
  | Get int
  | Put datetime datetime int TodoUpdate
  | Delete int

text \<open>The table after a request was handled, whether the handler returned or raised.\<close>

fun dispatch :: "request \<Rightarrow> session \<Rightarrow> session" where
  "dispatch (Post new_id now1 now2 todo) db = fst (create_todo_route new_id now1 now2 todo db)"
| "dispatch Get_all db = fst (get_all_todos_route db)"
| "dispatch (Get todo_id) db = fst (get_todo_route todo_id db)"
| "dispatch (Put now flush_now todo_id todo) db =
     fst (update_todo_route now flush_now todo_id todo db)"
| "dispatch (Delete todo_id) db = fst (delete_todo_route todo_id db)"

fun clock_reads :: "request \<Rightarrow> datetime list" where
  "clock_reads (Post new_id now1 now2 todo) = [now1, now2]"
| "clock_reads (Put now flush_now todo_id todo) = [now, flush_now]"
| "clock_reads _ = []"

fun serve :: "request list \<Rightarrow> session \<Rightarrow> session" where
  "serve [] db = db"
| "serve (req # reqs) db = serve reqs (dispatch req db)"

section \<open>Logging middleware (middlewares/logger.py)\<close>

text \<open>
  The middleware reads \<^verbatim>\<open>time.time()\<close> before and after the downstream chain
  (\<open>start_time\<close> and \<open>end_time\<close>, in seconds), and then logs one line made of the
  method, the path and the difference of the two readings; the message prints the
  difference with two decimals, the record here keeps its value. \<^verbatim>\<open>call_next\<close> either
  returns a response or raises; when it raises, the exception leaves the middleware at
  that line and the statements after it do not run. The log is the list of the records
  emitted so far.
\<close>

record Request =
  req_method :: string
  req_path :: string

record LogRecord =
  log_method :: string
  log_path :: string
  process_time :: real

definition logging_middleware ::
  "real \<Rightarrow> real \<Rightarrow> Request \<Rightarrow> (Request \<Rightarrow> 'e + 'r) \<Rightarrow> LogRecord list
     \<Rightarrow> LogRecord list \<times> ('e + 'r)" where
  "logging_middleware start_time end_time request call_next logs =
     (case call_next request of
        Inl exc \<Rightarrow> (logs, Inl exc)
      | Inr response \<Rightarrow>
          (logs @ [\<lparr>log_method = req_method request, log_path = req_path request,
                     process_time = end_time - start_time\<rparr>],
           Inr response))"

section \<open>Example data\<close>

definition row1 :: Todo where
  "row1 = \<lparr>t_id = 1, t_title = Some ''A'', t_description = None,
           t_created_at = 100, t_updated_at = 100\<rparr>"

definition todo_A :: TodoCreate where
  "todo_A = \<lparr>c_title = ''A'', c_description = None\<rparr>"

definition only_description :: TodoUpdate where
  "only_description = \<lparr>u_title = Unset, u_description = Provided (Some ''d'')\<rparr>"

definition no_fields :: TodoUpdate where
  "no_fields = \<lparr>u_title = Unset, u_description = Unset\<rparr>"

definition null_title :: TodoUpdate where
  "null_title = \<lparr>u_title = Provided None, u_description = Unset\<rparr>"

definition untitled_row :: Todo where
  "untitled_row = \<lparr>t_id = 1, t_title = None, t_description = None,
                   t_created_at = 100, t_updated_at = 150\<rparr>"

definition get_request :: Request where
  "get_request = \<lparr>req_method = ''GET'', req_path = ''/todos/1''\<rparr>"

definition raising_call_next :: "Request \<Rightarrow> error + TodoResponse" where
  "raising_call_next request = Inl ValidationError"

definition returning_call_next :: "Request \<Rightarrow> error + int" where
  "returning_call_next request = Inr 404"

section \<open>Basic facts about the session\<close>

lemma query_first_None_iff: "query_first todo_id db = None \<longleftrightarrow> todo_id \<notin> t_id ` set db"
  by (auto simp: query_first_def find_None_iff)

lemma query_first_SomeD:
  "query_first todo_id db = Some row \<Longrightarrow> row \<in> set db \<and> t_id row = todo_id"
  by (auto simp: query_first_def find_Some_iff)

lemma query_first_db_delete: "query_first (t_id r) (db_delete r db) = None"
  by (auto simp: query_first_None_iff db_delete_def)

section \<open>Reads leave the table as it is\<close>

text \<open>
  Claim C10. The read operations \<^verbatim>\<open>get_todo_by_id\<close> and \<^verbatim>\<open>get_all_todos\<close>, and the
  routes that call them, return the table they were given: no row is modified, added or
  removed, whatever the id and whether or not the call raises.
\<close>

theorem reads_leave_store_unchanged:
  "fst (get_todo_by_id todo_id db) = db \<and> fst (get_all_todos db) = db \<and>
   fst (get_todo_route todo_id db) = db \<and> fst (get_all_todos_route db) = db"
  by (simp add: get_todo_by_id_def get_all_todos_def get_todo_route_def
      get_all_todos_route_def split: option.splits sum.splits prod.splits)

section \<open>Ids that match no row\<close>

text \<open>
  Claim C3. When no row of the table has the id, the get, update and delete routes each
  raise \<^verbatim>\<open>HTTPException(status_code=404, detail="Todo not found")\<close>: the outcome is
  that error value, not another exception, and the table is left as it was.
\<close>

theorem absent_id_yields_not_found:
  "todo_id \<notin> t_id ` set db \<Longrightarrow>
     get_todo_route todo_id db = (db, Inl (HTTPException 404 ''Todo not found'')) \<and>
     update_todo_route now flush_now todo_id todo db
       = (db, Inl (HTTPException 404 ''Todo not found'')) \<and>
     delete_todo_route todo_id db = (db, Inl (HTTPException 404 ''Todo not found''))"
  by (simp add: query_first_None_iff [symmetric] get_todo_route_def get_todo_by_id_def
      update_todo_route_def update_todo_def delete_todo_route_def delete_todo_def not_found_def)

theorem absent_id_yields_not_found_witness:
  "(2::int) \<notin> t_id ` set [row1] \<and>
   get_todo_route 2 [row1] = ([row1], Inl (HTTPException 404 ''Todo not found'')) \<and>
   update_todo_route 150 151 2 only_description [row1]
     = ([row1], Inl (HTTPException 404 ''Todo not found'')) \<and>
   delete_todo_route 2 [row1] = ([row1], Inl (HTTPException 404 ''Todo not found''))"
proof -
  have h: "(2::int) \<notin> t_id ` set [row1]" by (simp add: row1_def)
  from absent_id_yields_not_found [OF h] h show ?thesis by simp
qed

section \<open>Delete, then get\<close>

text \<open>
  Claim C8. When \<^verbatim>\<open>delete_todo\<close> returns true, the table it leaves has no row of that
  id, so a following \<^verbatim>\<open>get_todo_by_id\<close> on that table returns \<^verbatim>\<open>None\<close> and the get
  route raises the 404 error; the reads do not bring the row back.
\<close>

theorem delete_then_get_not_found:
  "delete_todo todo_id db = (db', True) \<Longrightarrow>
     todo_id \<notin> t_id ` set db' \<and>
     get_todo_by_id todo_id db' = (db', Inr None) \<and>
     get_todo_route todo_id db' = (db', Inl (HTTPException 404 ''Todo not found''))"
  by (auto simp: delete_todo_def get_todo_by_id_def get_todo_route_def not_found_def
      query_first_db_delete db_delete_def
      dest!: query_first_SomeD split: option.splits)

theorem delete_then_get_not_found_witness:
  "delete_todo 1 [row1] = ([], True) \<and>
   (1::int) \<notin> t_id ` set ([]::Todo list) \<and>
   get_todo_by_id 1 [] = ([], Inr None) \<and>
   get_todo_route 1 [] = ([], Inl (HTTPException 404 ''Todo not found''))"
proof -
  have h: "delete_todo 1 [row1] = ([], True)"
    by (simp add: delete_todo_def query_first_def db_delete_def row1_def)
  from delete_then_get_not_found [OF h] h show ?thesis by simp
qed

section \<open>Partial update\<close>

text \<open>
  The loop over \<^verbatim>\<open>update_data.items()\<close> in one step: a field the caller set takes the
  value given, a field the caller did not set keeps its value, \<^verbatim>\<open>updated_at\<close> becomes
  the reading of the clock.
\<close>

lemma foldl_setattr_update_data:
  "foldl setattr row (update_data now todo) =
     row\<lparr>t_title := (case u_title todo of Unset \<Rightarrow> t_title row | Provided v \<Rightarrow> v),
         t_description := (case u_description todo of Unset \<Rightarrow> t_description row | Provided v \<Rightarrow> v),
         t_updated_at := now\<rparr>"
  by (cases "u_title todo"; cases "u_description todo")
     (simp_all add: update_data_def dict_exclude_unset_def)

text \<open>
  The UPDATE in one step, on any row: a column is assigned when the object differs from
  the loaded row there, and \<^verbatim>\<open>updated_at\<close> takes the reading at the flush when it is not
  assigned but another column is.
\<close>

lemma foldl_setattr_flush_update:
  "foldl setattr row (flush_update flush_now loaded db_todo) =
     row\<lparr>t_title := (if t_title db_todo \<noteq> t_title loaded then t_title db_todo else t_title row),
         t_description := (if t_description db_todo \<noteq> t_description loaded
                           then t_description db_todo else t_description row),
         t_updated_at := (if t_updated_at db_todo \<noteq> t_updated_at loaded then t_updated_at db_todo
                          else if t_title db_todo \<noteq> t_title loaded \<or>
                                  t_description db_todo \<noteq> t_description loaded
                               then flush_now else t_updated_at row)\<rparr>"
  by (simp add: flush_update_def net_changes_def Let_def)

lemma t_id_foldl_setattr: "t_id (foldl setattr row asg) = t_id row"
proof (induction asg arbitrary: row)
  case Nil
  then show ?case by simp
next
  case (Cons a asg)
  then show ?case by (cases a) simp_all
qed

lemma t_created_at_foldl_setattr: "t_created_at (foldl setattr row asg) = t_created_at row"
proof (induction asg arbitrary: row)
  case Nil
  then show ?case by simp
next
  case (Cons a asg)
  then show ?case by (cases a) simp_all
qed

lemma query_first_db_commit_update:
  "query_first key (db_commit_update key asg db) =
     map_option (\<lambda>row. foldl setattr row asg) (query_first key db)"
  by (induction db) (simp_all add: query_first_def db_commit_update_def t_id_foldl_setattr)

lemma fst_update_todo:
  "fst (update_todo now flush_now todo_id todo db) =
     (case query_first todo_id db of
        None \<Rightarrow> db
      | Some loaded \<Rightarrow>
          db_commit_update todo_id
            (flush_update flush_now loaded (foldl setattr loaded (update_data now todo))) db)"
proof (cases "query_first todo_id db")
  case None
  then show ?thesis by (simp add: update_todo_def)
next
  case (Some loaded)
  then have "t_id loaded = todo_id" by (simp add: query_first_SomeD)
  with Some show ?thesis by (simp add: update_todo_def Let_def)
qed

text \<open>What \<^verbatim>\<open>db.refresh\<close> loads is the row a query for the key finds after the commit.\<close>

lemma refresh_is_lookup:
  assumes "query_first todo_id db = Some loaded"
  shows "query_first todo_id (fst (update_todo now flush_now todo_id todo db)) =
           Some (foldl setattr loaded
             (flush_update flush_now loaded (foldl setattr loaded (update_data now todo))))"
  using assms by (simp add: fst_update_todo query_first_db_commit_update)

text \<open>
  Claim C2. A field that the update payload omits keeps its value in every row of the
  table: with \<^verbatim>\<open>title\<close> omitted the titles are the same after the update, with
  \<^verbatim>\<open>description\<close> omitted the descriptions are. In particular an update that
  supplies only \<^verbatim>\<open>description\<close> leaves the row with the title it had and with the
  description supplied; omission is not read as NULL.
\<close>

theorem omitted_fields_left_untouched:
  "(u_title todo = Unset \<longrightarrow>
      map t_title (fst (update_todo now flush_now todo_id todo db)) = map t_title db) \<and>
   (u_description todo = Unset \<longrightarrow>
      map t_description (fst (update_todo now flush_now todo_id todo db))
        = map t_description db) \<and>
   (u_title todo = Unset \<and> u_description todo = Provided d \<and> query_first todo_id db = Some row \<longrightarrow>
      map_option t_title (query_first todo_id (fst (update_todo now flush_now todo_id todo db)))
        = Some (t_title row) \<and>
      map_option t_description
          (query_first todo_id (fst (update_todo now flush_now todo_id todo db)))
        = Some d)"
proof (cases "query_first todo_id db")
  case None
  then show ?thesis by (simp add: update_todo_def)
next
  case (Some loaded)
  let ?stmt = "flush_update flush_now loaded (foldl setattr loaded (update_data now todo))"
  have db': "fst (update_todo now flush_now todo_id todo db) = db_commit_update todo_id ?stmt db"
    using Some by (simp add: fst_update_todo)
  have titles: "map t_title (db_commit_update todo_id ?stmt db) = map t_title db"
    if "u_title todo = Unset"
    using that
    by (simp add: db_commit_update_def foldl_setattr_flush_update foldl_setattr_update_data)
  have descriptions: "map t_description (db_commit_update todo_id ?stmt db) = map t_description db"
    if "u_description todo = Unset"
    using that
    by (simp add: db_commit_update_def foldl_setattr_flush_update foldl_setattr_update_data)
  have found: "query_first todo_id (db_commit_update todo_id ?stmt db)
                 = Some (foldl setattr loaded ?stmt)"
    using Some by (simp add: query_first_db_commit_update)
  have only_description:
    "t_title (foldl setattr loaded ?stmt) = t_title loaded \<and>
     t_description (foldl setattr loaded ?stmt) = d"
    if "u_title todo = Unset" and "u_description todo = Provided d"
    using that by (simp add: foldl_setattr_flush_update foldl_setattr_update_data)
  from titles descriptions found only_description Some show ?thesis
    unfolding db' by auto
qed

theorem omitted_fields_left_untouched_witness:
  "u_title only_description = Unset \<and>
   u_description only_description = Provided (Some ''d'') \<and>
   query_first 1 [row1] = Some row1 \<and>
   map t_title (fst (update_todo 150 151 1 only_description [row1])) = [Some ''A''] \<and>
   map_option t_title (query_first 1 (fst (update_todo 150 151 1 only_description [row1])))
     = Some (Some ''A'') \<and>
   map_option t_description
       (query_first 1 (fst (update_todo 150 151 1 only_description [row1])))
     = Some (Some ''d'')"
proof -
  have h: "u_title only_description = Unset \<and>
      u_description only_description = Provided (Some ''d'') \<and>
      query_first 1 [row1] = Some row1"
    by (simp add: only_description_def query_first_def row1_def)
  from omitted_fields_left_untouched
    [of only_description 150 151 1 "[row1]" "Some ''d''" row1] h
  show ?thesis by (simp add: row1_def)
qed

section \<open>Update without fields\<close>

text \<open>
  On a row that has a title, an update supplying no field leaves the row with
  \<^verbatim>\<open>updated_at\<close> equal to the reading of the clock and nothing else changed, and
  returns its view.
\<close>

lemma update_without_fields_on_titled_row:
  assumes found: "query_first todo_id db = Some row" and title: "t_title row = Some title"
  shows "query_first todo_id
           (fst (update_todo now flush_now todo_id \<lparr>u_title = Unset, u_description = Unset\<rparr> db))
           = Some (row\<lparr>t_updated_at := now\<rparr>) \<and>
         snd (update_todo now flush_now todo_id \<lparr>u_title = Unset, u_description = Unset\<rparr> db)
           = Inr (Some \<lparr>r_id = todo_id, r_title = title, r_description = t_description row,
                        r_created_at = t_created_at row, r_updated_at = now\<rparr>)"
proof -
  let ?u = "\<lparr>u_title = Unset, u_description = Unset\<rparr>"
  have key: "t_id row = todo_id" using found by (simp add: query_first_SomeD)
  have row': "foldl setattr row (flush_update flush_now row (foldl setattr row (update_data now ?u)))
                = row\<lparr>t_updated_at := now\<rparr>"
    by (simp add: foldl_setattr_flush_update foldl_setattr_update_data)
  have 1: "query_first todo_id (fst (update_todo now flush_now todo_id ?u db))
             = Some (row\<lparr>t_updated_at := now\<rparr>)"
    using refresh_is_lookup [OF found, of now flush_now ?u] by (simp only: row')
  have 2: "snd (update_todo now flush_now todo_id ?u db)
             = map_sum id Some (from_orm (row\<lparr>t_updated_at := now\<rparr>))"
    using found by (simp add: update_todo_def Let_def row')
  from 1 2 title key show ?thesis by (simp add: from_orm_def)
qed

text \<open>
  Claim C5 at the row that the sequence of claim C1 leaves (create, then update with
  \<^verbatim>\<open>{"title": null}\<close>): the update supplying no field commits the new
  \<^verbatim>\<open>updated_at\<close> and then \<^verbatim>\<open>from_orm\<close> raises on the NULL title. The call does not
  return the entity.
\<close>

theorem update_without_fields_raises_on_null_title:
  "serve [Post 1 100 100 todo_A, Put 150 151 1 null_title] [] = [untitled_row] \<and>
   update_todo 200 201 1 no_fields [untitled_row]
     = ([\<lparr>t_id = 1, t_title = None, t_description = None,
          t_created_at = 100, t_updated_at = 200\<rparr>], Inl ValidationError) \<and>
   update_todo_route 200 201 1 no_fields [untitled_row]
     = ([\<lparr>t_id = 1, t_title = None, t_description = None,
          t_created_at = 100, t_updated_at = 200\<rparr>], Inl ValidationError)"
  by (simp add: create_todo_route_def create_todo_def db_add_def todo_A_def null_title_def
      no_fields_def untitled_row_def update_todo_route_def update_todo_def query_first_def
      db_commit_update_def foldl_setattr_flush_update foldl_setattr_update_data
      from_orm_def Let_def)

section \<open>Create\<close>

lemma query_first_append_fresh:
  "t_id row \<notin> t_id ` set db \<Longrightarrow> query_first (t_id row) (db @ [row]) = Some row"
  by (induction db) (simp_all add: query_first_def)

text \<open>
  Claim C7. When the key the store assigns to the new row is not the key of a row
  already in the table (keys are unique), create returns the view of the new row, and
  \<^verbatim>\<open>get_todo_by_id\<close> with that key on the table create left, with nothing in
  between, returns the same view; so does the get route.
\<close>

theorem get_after_create_returns_created_view:
  "new_id \<notin> t_id ` set db \<Longrightarrow>
     snd (create_todo_route new_id now1 now2 todo db)
       = Inr \<lparr>r_id = new_id, r_title = c_title todo, r_description = c_description todo,
              r_created_at = now1, r_updated_at = now2\<rparr> \<and>
     get_todo_by_id new_id (fst (create_todo_route new_id now1 now2 todo db))
       = (fst (create_todo_route new_id now1 now2 todo db),
          map_sum id Some (snd (create_todo_route new_id now1 now2 todo db))) \<and>
     get_todo_route new_id (fst (create_todo_route new_id now1 now2 todo db))
       = (fst (create_todo_route new_id now1 now2 todo db),
          snd (create_todo_route new_id now1 now2 todo db))"
proof -
  assume fresh: "new_id \<notin> t_id ` set db"
  let ?row = "\<lparr>t_id = new_id, t_title = Some (c_title todo),
               t_description = c_description todo,
               t_created_at = now1, t_updated_at = now2\<rparr>"
  have created: "create_todo_route new_id now1 now2 todo db = (db @ [?row], from_orm ?row)"
    by (simp add: create_todo_route_def create_todo_def db_add_def Let_def)
  have found: "query_first new_id (db @ [?row]) = Some ?row"
    using query_first_append_fresh [of ?row db] fresh by simp
  show ?thesis
    unfolding created by (simp add: get_todo_route_def get_todo_by_id_def found from_orm_def)
qed

theorem get_after_create_returns_created_view_witness:
  "(2::int) \<notin> t_id ` set [row1] \<and>
   snd (create_todo_route 2 200 201 todo_A [row1])
     = Inr \<lparr>r_id = 2, r_title = ''A'', r_description = None,
            r_created_at = 200, r_updated_at = 201\<rparr> \<and>
   get_todo_route 2 (fst (create_todo_route 2 200 201 todo_A [row1]))
     = (fst (create_todo_route 2 200 201 todo_A [row1]),
        Inr \<lparr>r_id = 2, r_title = ''A'', r_description = None,
             r_created_at = 200, r_updated_at = 201\<rparr>)"
proof -
  have h: "(2::int) \<notin> t_id ` set [row1]" by (simp add: row1_def)
  from get_after_create_returns_created_view [OF h, of 200 201 todo_A] h
  show ?thesis by (simp add: todo_A_def prod_eq_iff)
qed

text \<open>
  Claim C4, as stated, fails: \<^verbatim>\<open>create_todo\<close> reads the clock once for
  \<^verbatim>\<open>created_at\<close> and once more for \<^verbatim>\<open>updated_at\<close>. When the second reading is one
  microsecond later than the first, the view returned has two different timestamps.
\<close>

theorem create_reads_clock_twice_counterexample:
  "snd (create_todo 1 100 101 todo_A [])
     = Inr \<lparr>r_id = 1, r_title = ''A'', r_description = None,
            r_created_at = 100, r_updated_at = 101\<rparr> \<and>
   r_created_at (projr (snd (create_todo 1 100 101 todo_A [])))
     \<noteq> r_updated_at (projr (snd (create_todo 1 100 101 todo_A [])))"
  by (simp add: create_todo_def from_orm_def todo_A_def Let_def)

text \<open>
  Claim C4, amended. Every create call appends one row whose \<^verbatim>\<open>created_at\<close> is the
  first reading of the clock and whose \<^verbatim>\<open>updated_at\<close> is the second, and returns
  its view; creating with title \<^verbatim>\<open>"A"\<close> and no description returns a view with the
  assigned id, description null and these two timestamps. The two timestamps are equal
  exactly when the two readings are.
\<close>

theorem create_sets_timestamps_from_two_readings:
  "create_todo new_id now1 now2 todo db
     = (db @ [\<lparr>t_id = new_id, t_title = Some (c_title todo),
                t_description = c_description todo,
                t_created_at = now1, t_updated_at = now2\<rparr>],
        Inr \<lparr>r_id = new_id, r_title = c_title todo, r_description = c_description todo,
             r_created_at = now1, r_updated_at = now2\<rparr>) \<and>
   snd (create_todo new_id now1 now2 \<lparr>c_title = ''A'', c_description = None\<rparr> db)
     = Inr \<lparr>r_id = new_id, r_title = ''A'', r_description = None,
            r_created_at = now1, r_updated_at = now2\<rparr> \<and>
   (r_created_at (projr (snd (create_todo new_id now1 now2 todo db)))
      = r_updated_at (projr (snd (create_todo new_id now1 now2 todo db))))
     = (now1 = now2)"
  by (simp add: create_todo_def from_orm_def db_add_def Let_def)

section \<open>A title set to null\<close>

text \<open>
  Claim C1 at the sequence create, then update with the payload \<^verbatim>\<open>{"title": null}\<close>:
  the field is set, so \<^verbatim>\<open>dict(exclude_unset=True)\<close> holds \<^verbatim>\<open>title: None\<close>, the
  commit stores NULL in the column, and only then \<^verbatim>\<open>from_orm\<close> raises. The row stays
  in the table with no title, and reading it raises as well.
\<close>

theorem null_title_is_persisted:
  "serve [Post 1 100 100 todo_A, Put 150 151 1 null_title] []
     = [\<lparr>t_id = 1, t_title = None, t_description = None,
         t_created_at = 100, t_updated_at = 150\<rparr>] \<and>
   update_todo_route 150 151 1 null_title (serve [Post 1 100 100 todo_A] [])
     = ([\<lparr>t_id = 1, t_title = None, t_description = None,
          t_created_at = 100, t_updated_at = 150\<rparr>], Inl ValidationError) \<and>
   get_todo_route 1 (serve [Post 1 100 100 todo_A, Put 150 151 1 null_title] [])
     = (serve [Post 1 100 100 todo_A, Put 150 151 1 null_title] [], Inl ValidationError)"
  by (simp add: create_todo_route_def create_todo_def db_add_def todo_A_def null_title_def
      update_todo_route_def update_todo_def query_first_def
      db_commit_update_def foldl_setattr_flush_update foldl_setattr_update_data
      from_orm_def get_todo_route_def get_todo_by_id_def Let_def)

section \<open>Timestamps along a sequence of requests\<close>

text \<open>What each route does to the table.\<close>

lemma fst_update_todo_route:
  "fst (update_todo_route now flush_now todo_id todo db) =
     fst (update_todo now flush_now todo_id todo db)"
  by (simp add: update_todo_route_def split: prod.splits sum.splits option.splits)

lemma fst_create_todo_route:
  "fst (create_todo_route new_id now1 now2 todo db) =
     db @ [\<lparr>t_id = new_id, t_title = Some (c_title todo), t_description = c_description todo,
            t_created_at = now1, t_updated_at = now2\<rparr>]"
  by (simp add: create_todo_route_def create_todo_def db_add_def Let_def)

lemma fst_delete_todo_route: "set (fst (delete_todo_route todo_id db)) \<subseteq> set db"
  by (auto simp: delete_todo_route_def delete_todo_def db_delete_def split: option.splits)

lemma fst_read_routes:
  "fst (get_todo_route todo_id db) = db" "fst (get_all_todos_route db) = db"
  by (simp_all add: get_todo_route_def get_todo_by_id_def get_all_todos_route_def
      get_all_todos_def split: option.splits sum.splits)

text \<open>
  A row of the table after an update is a row of the table before it, or such a row with
  the columns of the UPDATE assigned: its \<^verbatim>\<open>created_at\<close> is the same, and its
  \<^verbatim>\<open>updated_at\<close> is the same, the reading \<open>now\<close> or the reading \<open>flush_now\<close>.
\<close>

lemma row_after_update:
  assumes "row' \<in> set (fst (update_todo now flush_now todo_id todo db))"
  shows "\<exists>row\<in>set db. t_created_at row' = t_created_at row \<and>
           (t_updated_at row' = t_updated_at row \<or> t_updated_at row' = now \<or>
            t_updated_at row' = flush_now)"
proof (cases "query_first todo_id db")
  case None
  with assms show ?thesis by (auto simp: fst_update_todo)
next
  case (Some loaded)
  let ?stmt = "flush_update flush_now loaded (foldl setattr loaded (update_data now todo))"
  from assms Some have "row' \<in> set (db_commit_update todo_id ?stmt db)"
    by (simp add: fst_update_todo)
  then obtain row where row: "row \<in> set db"
    and row': "row' = row \<or> row' = foldl setattr row ?stmt"
    by (auto simp: db_commit_update_def split: if_splits)
  from row' have "t_created_at row' = t_created_at row \<and>
           (t_updated_at row' = t_updated_at row \<or> t_updated_at row' = now \<or>
            t_updated_at row' = flush_now)"
  proof
    assume "row' = row"
    then show ?thesis by simp
  next
    assume "row' = foldl setattr row ?stmt"
    then show ?thesis
      by (simp add: foldl_setattr_flush_update foldl_setattr_update_data)
  qed
  with row show ?thesis by blast
qed

text \<open>
  One request keeps the order of the two timestamps of every row, and keeps
  \<^verbatim>\<open>updated_at\<close> below the readings still to come, when the readings of the request
  and those to come never decrease.
\<close>

lemma dispatch_keeps_order:
  assumes sorted: "sorted (clock_reads req @ ts)"
    and inv: "\<forall>row\<in>set db. t_created_at row \<le> t_updated_at row \<and>
                (\<forall>t\<in>set (clock_reads req @ ts). t_updated_at row \<le> t)"
  shows "\<forall>row\<in>set (dispatch req db). t_created_at row \<le> t_updated_at row \<and>
           (\<forall>t\<in>set ts. t_updated_at row \<le> t)"
proof (cases req)
  case (Post new_id now1 now2 todo)
  with sorted inv show ?thesis
    by (auto simp: fst_create_todo_route)
next
  case Get_all
  with inv show ?thesis by (simp add: fst_read_routes)
next
  case (Get todo_id)
  with inv show ?thesis by (simp add: fst_read_routes)
next
  case (Put now flush_now todo_id todo)
  have later: "now \<le> flush_now" "\<forall>t\<in>set ts. now \<le> t" "\<forall>t\<in>set ts. flush_now \<le> t"
    using sorted Put by auto
  have old: "\<forall>row\<in>set db. t_created_at row \<le> t_updated_at row \<and> t_updated_at row \<le> now \<and>
               (\<forall>t\<in>set ts. t_updated_at row \<le> t)"
    using inv Put by simp
  show ?thesis
  proof
    fix row' assume "row' \<in> set (dispatch req db)"
    then have "row' \<in> set (fst (update_todo now flush_now todo_id todo db))"
      unfolding Put by (simp add: fst_update_todo_route)
    from row_after_update [OF this] obtain row where row: "row \<in> set db"
      and created: "t_created_at row' = t_created_at row"
      and updated: "t_updated_at row' = t_updated_at row \<or> t_updated_at row' = now \<or>
                    t_updated_at row' = flush_now"
      by blast
    from old row have bounds: "t_created_at row \<le> t_updated_at row" "t_updated_at row \<le> now"
      "\<forall>t\<in>set ts. t_updated_at row \<le> t"
      by auto
    from updated show "t_created_at row' \<le> t_updated_at row' \<and> (\<forall>t\<in>set ts. t_updated_at row' \<le> t)"
      using created bounds later by auto
  qed
next
  case (Delete todo_id)
  with inv fst_delete_todo_route [of todo_id db] show ?thesis by auto
qed

lemma serve_keeps_order:
  "sorted (concat (map clock_reads reqs)) \<Longrightarrow>
   \<forall>row\<in>set db. t_created_at row \<le> t_updated_at row \<and>
      (\<forall>t\<in>set (concat (map clock_reads reqs)). t_updated_at row \<le> t) \<Longrightarrow>
   \<forall>row\<in>set (serve reqs db). t_created_at row \<le> t_updated_at row"
proof (induction reqs arbitrary: db)
  case Nil
  then show ?case by simp
next
  case (Cons req reqs)
  have step: "\<forall>row\<in>set (dispatch req db). t_created_at row \<le> t_updated_at row \<and>
           (\<forall>t\<in>set (concat (map clock_reads reqs)). t_updated_at row \<le> t)"
    using dispatch_keeps_order [of req "concat (map clock_reads reqs)" db] Cons.prems by simp
  have "sorted (concat (map clock_reads reqs))"
    using Cons.prems(1) by (simp add: sorted_append)
  from Cons.IH [OF this step] show ?case by simp
qed

text \<open>
  Claim C9, as stated, fails: the timestamps are readings of the wall clock, which can
  be set back. A row created at the reading 100 and updated at the reading 50 has
  \<^verbatim>\<open>updated_at\<close> before \<^verbatim>\<open>created_at\<close>.
\<close>

theorem clock_set_back_counterexample:
  "serve [Post 1 100 100 todo_A, Put 50 51 1 no_fields] []
     = [\<lparr>t_id = 1, t_title = Some ''A'', t_description = None,
         t_created_at = 100, t_updated_at = 50\<rparr>] \<and>
   t_updated_at (hd (serve [Post 1 100 100 todo_A, Put 50 51 1 no_fields] []))
     < t_created_at (hd (serve [Post 1 100 100 todo_A, Put 50 51 1 no_fields] []))"
  by (simp add: fst_create_todo_route fst_update_todo_route fst_update_todo query_first_def
      todo_A_def no_fields_def db_commit_update_def foldl_setattr_flush_update
      foldl_setattr_update_data)

text \<open>
  Claim C9, amended. When the readings of the clock along a sequence of requests never
  decrease (for an update the reading in \<^verbatim>\<open>update_todo\<close> and the one at the flush,
  which \<^verbatim>\<open>onupdate\<close> takes; for a create its two readings), and the rows the table
  starts with are ordered and not later than these readings, every row of the table after
  the sequence has \<^verbatim>\<open>created_at\<close> not after \<^verbatim>\<open>updated_at\<close>. Whatever the clock
  reads, an update changes no \<^verbatim>\<open>created_at\<close> and no id of any row, and a create
  leaves the rows that were there as they were.
\<close>

theorem timestamps_ordered_when_clock_not_set_back:
  "(sorted (concat (map clock_reads reqs)) \<and>
    (\<forall>row\<in>set db. t_created_at row \<le> t_updated_at row \<and>
       (\<forall>t\<in>set (concat (map clock_reads reqs)). t_updated_at row \<le> t)) \<longrightarrow>
    (\<forall>row\<in>set (serve reqs db). t_created_at row \<le> t_updated_at row)) \<and>
   map t_created_at (fst (update_todo now flush_now todo_id todo db)) = map t_created_at db \<and>
   map t_id (fst (update_todo now flush_now todo_id todo db)) = map t_id db \<and>
   take (length db) (fst (create_todo new_id now1 now2 new_todo db)) = db"
proof -
  have "map t_created_at (fst (update_todo now flush_now todo_id todo db)) = map t_created_at db"
    by (simp add: fst_update_todo db_commit_update_def t_created_at_foldl_setattr
        split: option.splits)
  moreover have "map t_id (fst (update_todo now flush_now todo_id todo db)) = map t_id db"
    by (simp add: fst_update_todo db_commit_update_def t_id_foldl_setattr
        split: option.splits)
  moreover have "take (length db) (fst (create_todo new_id now1 now2 new_todo db)) = db"
    by (simp add: create_todo_def db_add_def Let_def)
  ultimately show ?thesis
    using serve_keeps_order [of reqs db] by blast
qed

text \<open>
  The witness runs an update whose reading equals the stored \<^verbatim>\<open>updated_at\<close> while the
  description changes, so that the row gets the reading at the flush.
\<close>

theorem timestamps_ordered_when_clock_not_set_back_witness:
  "sorted (concat (map clock_reads
      [Post 1 100 100 todo_A, Put 100 105 1 only_description, Get 1])) \<and>
   serve [Post 1 100 100 todo_A, Put 100 105 1 only_description, Get 1] []
     = [\<lparr>t_id = 1, t_title = Some ''A'', t_description = Some ''d'',
         t_created_at = 100, t_updated_at = 105\<rparr>] \<and>
   list_all (\<lambda>row. t_created_at row \<le> t_updated_at row)
     (serve [Post 1 100 100 todo_A, Put 100 105 1 only_description, Get 1] [])"
proof -
  have s: "sorted (concat (map clock_reads
      [Post 1 100 100 todo_A, Put 100 105 1 only_description, Get 1]))"
    by simp
  have v: "serve [Post 1 100 100 todo_A, Put 100 105 1 only_description, Get 1] []
     = [\<lparr>t_id = 1, t_title = Some ''A'', t_description = Some ''d'',
         t_created_at = 100, t_updated_at = 105\<rparr>]"
    by (simp add: fst_create_todo_route fst_update_todo_route fst_update_todo fst_read_routes
        query_first_def todo_A_def only_description_def db_commit_update_def
        foldl_setattr_flush_update foldl_setattr_update_data)
  from timestamps_ordered_when_clock_not_set_back
    [of "[Post 1 100 100 todo_A, Put 100 105 1 only_description, Get 1]" "[]"] s
  have "\<forall>row\<in>set (serve [Post 1 100 100 todo_A, Put 100 105 1 only_description, Get 1] []).
          t_created_at row \<le> t_updated_at row"
    by simp
  then have "list_all (\<lambda>row. t_created_at row \<le> t_updated_at row)
     (serve [Post 1 100 100 todo_A, Put 100 105 1 only_description, Get 1] [])"
    by (simp add: list_all_iff)
  with s v show ?thesis by blast
qed

section \<open>The log of the middleware\<close>

text \<open>
  Claim C6, as stated, fails twice. The middleware has no handler around
  \<^verbatim>\<open>await call_next(request)\<close>: when the downstream chain raises, the exception
  leaves the middleware there and no record is emitted for the request. And the duration
  is the difference of two readings of \<^verbatim>\<open>time.time()\<close>, the wall clock: when it is set
  back while the request is handled (readings 11, then 10), the record emitted carries a
  negative duration.
\<close>

theorem raising_handler_counterexample:
  "logging_middleware 10 11 get_request raising_call_next [] = ([], Inl ValidationError) \<and>
   logging_middleware 11 10 get_request returning_call_next []
     = ([\<lparr>log_method = ''GET'', log_path = ''/todos/1'', process_time = - 1\<rparr>], Inr 404) \<and>
   process_time (last (fst (logging_middleware 11 10 get_request returning_call_next []))) < 0"
  by (simp add: logging_middleware_def raising_call_next_def returning_call_next_def
      get_request_def)

text \<open>
  Claim C6, amended. For every request whose downstream chain returns a response, the
  middleware appends exactly one record to the log, made of the method, the path and the
  difference of the two readings of the time, and returns that response; the duration is
  not negative when the second reading is not before the first. When the downstream
  chain raises, the log is left as it was and the exception propagates.
\<close>

theorem logging_middleware_logs_once_per_response:
  "(call_next request = Inr response \<longrightarrow>
      logging_middleware start_time end_time request call_next logs
        = (logs @ [\<lparr>log_method = req_method request, log_path = req_path request,
                     process_time = end_time - start_time\<rparr>], Inr response) \<and>
      (start_time \<le> end_time \<longrightarrow>
         0 \<le> process_time (last (fst (logging_middleware start_time end_time request call_next logs))))) \<and>
   (call_next request = Inl exc \<longrightarrow>
      logging_middleware start_time end_time request call_next logs = (logs, Inl exc))"
  by (simp add: logging_middleware_def)

theorem logging_middleware_logs_once_per_response_witness:
  "returning_call_next get_request = Inr 404 \<and>
   logging_middleware 10 11 get_request returning_call_next []
     = ([\<lparr>log_method = ''GET'', log_path = ''/todos/1'', process_time = 1\<rparr>], Inr 404) \<and>
   0 \<le> process_time (last (fst (logging_middleware 10 11 get_request returning_call_next [])))"
proof -
  have h: "returning_call_next get_request = Inr 404" by (simp add: returning_call_next_def)
  from logging_middleware_logs_once_per_response
    [of returning_call_next get_request 404 10 11 "[]"] h
  show ?thesis by (simp add: get_request_def)
qed

end
